theory Spec2Isabelle
  imports Complex_Main
begin

section \<open>The front end of the N-gram tool: \<open>static/script.js\<close>\<close>

text \<open>
  \<open>script.js\<close> holds two variants of the same page script, one after the other: the
  simpler one (lines 1 to 267: two state variables, a settings panel with two
  thresholds) and the richer one (lines 269 to 986: five state variables, analytics and
  an archive). The richer variant keeps the source's names; a definition of the simpler
  variant carries the suffix \<open>_simple\<close>.

  Conventions of the embedding.
  \<^item> The module-level variables and the parts of the page that the script reads or writes
    are the fields of one record, passed in and returned.
  \<^item> A handler that awaits a \<open>fetch\<close> takes what the fetch produced as an argument
    (\<open>'a fetched\<close>) and runs to its end in one step; a request it sends is appended to
    the field \<open>requests\<close>.
  \<^item> A handler returns a completion: \<open>Normal\<close> with the state it leaves, or \<open>Throw\<close> with
    the exception and the state at the point of the throw.
  \<^item> A JavaScript number is a \<open>real\<close> (a count is a \<open>nat\<close>): arithmetic is exact, where
    the browser rounds every operation to a binary64 double. \<open>Math.floor(Math.log(b) /
    Math.log(k))\<close> is the exact integer logarithm \<open>floorLog\<close>.
  \<^item> A JSON object is a record whose optional members are \<open>option\<close> values; \<open>None\<close>
    stands for a member that is missing, \<open>null\<close> or not of its type.
  \<^item> \<open>new Date().toISOString()\<close> is an argument \<open>now\<close> of the handler that calls it.

  The top-level navigation (\<open>navigateToSection\<close>), the drag handlers,
  \<open>viewArchiveAnalytics\<close>, \<open>deleteArchive\<close> and \<open>downloadArchive\<close> are not part of this
  development.
\<close>

subsection \<open>Strings and numbers of the language\<close>

definition digit :: "nat \<Rightarrow> char" where
  "digit d = ''0123456789'' ! d"

text \<open>The digits of the decimal representation of \<open>n\<close>, without leading zeros.\<close>

fun decimal :: "nat \<Rightarrow> string" where
  "decimal n = (if n < 10 then [digit n] else decimal (n div 10) @ [digit (n mod 10)])"

declare decimal.simps [simp del]

text \<open>
  \<open>Number.prototype.toFixed\<close>, for magnitudes below \<open>10\<^sup>2\<^sup>1\<close> (from there on the language
  prints the number in exponent notation, which is not rendered here): \<open>n\<close> is the
  integer for which \<open>n / 10\<^sup>f\<close> is closest to \<open>x\<close>, the larger one of two.
\<close>

definition toFixed :: "real \<Rightarrow> nat \<Rightarrow> string" where
  "toFixed x f =
     (let s = (if x < 0 then ''-'' else '''');
          n = nat \<lfloor>\<bar>x\<bar> * 10 ^ f + 1 / 2\<rfloor>;
          m = decimal n;
          m = (if f \<noteq> 0
               then (let m = (if length m \<le> f then replicate (f + 1 - length m) CHR ''0'' @ m else m);
                         k = length m
                     in take (k - f) m @ ''.'' @ drop (k - f) m)
               else m)
      in s @ m)"

definition isDigit :: "char \<Rightarrow> bool" where
  "isDigit c = (c \<in> set ''0123456789'')"

definition digitValue :: "char \<Rightarrow> nat" where
  "digitValue c = of_char c - 48"

definition digitsValue :: "string \<Rightarrow> nat" where
  "digitsValue ds = foldl (\<lambda>a c. 10 * a + digitValue c) 0 ds"

text \<open>
  \<open>parseFloat\<close> on a decimal literal: an optional sign, digits, an optional fraction
  (no leading white space and no exponent part, which no string of this script has);
  \<open>None\<close> is \<open>NaN\<close>.
\<close>

definition parseFloat :: "string \<Rightarrow> real option" where
  "parseFloat str =
     (let (neg, r) = (case str of
                        [] \<Rightarrow> (False, str)
                      | c # t \<Rightarrow> if c = CHR ''-'' then (True, t)
                                 else if c = CHR ''+'' then (False, t) else (False, str));
          ip = takeWhile isDigit r;
          rest = dropWhile isDigit r;
          fp = (case rest of [] \<Rightarrow> [] | c # t \<Rightarrow> if c = CHR ''.'' then takeWhile isDigit t else []);
          v = of_nat (digitsValue ip) + of_nat (digitsValue fp) / 10 ^ length fp
      in if ip = [] \<and> fp = [] then None else Some (if neg then - v else v))"

fun fractionDigits :: "nat \<Rightarrow> real \<Rightarrow> string" where
  "fractionDigits k r =
     (if k = 0 \<or> r = 0 then []
      else (let d = nat \<lfloor>r * 10\<rfloor> in digit d # fractionDigits (k - 1) (r * 10 - of_nat d)))"

declare fractionDigits.simps [simp del]

text \<open>
  The string of a number (\<open>Number::toString\<close>, as string concatenation applies it), for
  a number with a short decimal expansion and a magnitude below \<open>10\<^sup>2\<^sup>1\<close>: the integer
  part, and the fraction digits up to the last one that is not zero.
\<close>

definition numberToString :: "real \<Rightarrow> string" where
  "numberToString x =
     (let y = \<bar>x\<bar>; ip = nat \<lfloor>y\<rfloor>; fd = fractionDigits 17 (y - of_nat ip)
      in (if x < 0 then ''-'' else '''') @ decimal ip @ (if fd = [] then [] else ''.'' @ fd))"

text \<open>\<open>Math.floor(Math.log(n) / Math.log(k))\<close> for \<open>n \<ge> 1\<close>, computed exactly.\<close>

fun floorLog :: "nat \<Rightarrow> nat \<Rightarrow> nat" where
  "floorLog k n = (if k < 2 \<or> n < k then 0 else Suc (floorLog k (n div k)))"

declare floorLog.simps [simp del]

definition lowerChar :: "char \<Rightarrow> char" where
  "lowerChar c =
     (case map_of (zip ''ABCDEFGHIJKLMNOPQRSTUVWXYZ'' ''abcdefghijklmnopqrstuvwxyz'') c of
        None \<Rightarrow> c
      | Some l \<Rightarrow> l)"

text \<open>\<open>String.prototype.toLowerCase\<close> on the letters of ASCII; any other character stays.\<close>

definition toLowerCase :: "string \<Rightarrow> string" where
  "toLowerCase str = map lowerChar str"

definition endsWith :: "string \<Rightarrow> string \<Rightarrow> bool" where
  "endsWith str searchString =
     (length searchString \<le> length str \<and>
      drop (length str - length searchString) str = searchString)"

text \<open>\<open>v || d\<close> for a string \<open>v\<close> that may be missing: the empty string is falsy too.\<close>

definition orElse :: "string option \<Rightarrow> string \<Rightarrow> string" where
  "orElse v d = (case v of None \<Rightarrow> d | Some str \<Rightarrow> if str = [] then d else str)"

text \<open>\<open>!v\<close> for a string \<open>v\<close> that may be \<open>null\<close>.\<close>

definition falsy :: "string option \<Rightarrow> bool" where
  "falsy v = (case v of None \<Rightarrow> True | Some str \<Rightarrow> str = [])"

text \<open>\<open>v || 0\<close> for a number that may be missing.\<close>

definition orZero :: "'a::zero option \<Rightarrow> 'a" where
  "orZero v = (case v of None \<Rightarrow> 0 | Some x \<Rightarrow> x)"

subsection \<open>Exceptions and sequencing\<close>

datatype error = TypeError | NetworkError | SyntaxError

datatype 'a completion = Normal 'a | Throw error 'a

fun state_of :: "'a completion \<Rightarrow> 'a" where
  "state_of (Normal s) = s"
| "state_of (Throw e s) = s"

fun threw :: "'a completion \<Rightarrow> bool" where
  "threw (Normal s) = False"
| "threw (Throw e s) = True"

text \<open>Statements in sequence: a throw leaves the rest undone.\<close>

fun seq :: "('a \<Rightarrow> 'a completion) list \<Rightarrow> 'a \<Rightarrow> 'a completion" where
  "seq [] s = Normal s"
| "seq (st # sts) s = (case st s of Normal s' \<Rightarrow> seq sts s' | Throw e s' \<Rightarrow> Throw e s')"

text \<open>
  What \<open>await fetch(...)\<close> followed by \<open>await response.json()\<close> produces: the fetch is
  rejected (no connection), the body is not JSON, or the body parses to a value.
\<close>

datatype 'a fetched = Rejected | NotJson | Json 'a

subsection \<open>Files, JSON values, requests\<close>

record selected_file =
  name :: string
  size_bytes :: nat

text \<open>The \<open>summary\<close> object of the response of \<open>POST /upload\<close>.\<close>

record summary =
  original_rows :: "nat option"
  asins_removed :: "nat option"
  campaigns_processed :: "nat option"
  total_flagged :: "nat option"
  total_spend :: "real option"
  total_sales :: "real option"
  total_orders :: "nat option"

record campaign_detail =
  monograms :: "nat option"
  bigrams :: "nat option"
  trigrams :: "nat option"
  search_terms :: "nat option"
  spend :: "real option"
  sales :: "real option"

text \<open>
  The response of \<open>POST /upload\<close>. An object with string keys is an association list in
  the order \<open>Object.entries\<close> gives.
\<close>

record upload_result =
  success :: bool
  output_file :: "string option"
  asin_file :: "string option"
  summary :: "summary option"
  campaigns :: "string list option"
  campaign_details :: "(string \<times> campaign_detail) list option"
  error :: "string option"

text \<open>
  The analytics snapshot \<open>analyticsData\<close>: the members of the summary, spread, and four
  more (\<open>campaigns\<close> is \<open>snapshot_campaigns\<close> here).
\<close>

record analytics = summary +
  snapshot_campaigns :: "string list option"
  campaignDetails :: "(string \<times> campaign_detail) list option"
  filename :: "string option"
  processedAt :: "string option"

text \<open>An entry of the response of \<open>GET /archive\<close>, and the response itself.\<close>

record archive_item =
  item_id :: string
  item_filename :: string
  originalFilename :: "string option"
  item_processedAt :: string
  item_summary :: "analytics option"

record archive_list_result =
  list_success :: bool
  archives :: "archive_item list option"

text \<open>The response of \<open>POST /archive\<close>.\<close>

record archive_create_result =
  create_success :: bool
  create_error :: "string option"

datatype request =
    Upload_simple selected_file string string
  | Upload selected_file
  | Download string
  | ArchiveCreate string string analytics string
  | ArchiveList

text \<open>
  The text of an element: a literal string, a number through \<open>toLocaleString()\<close> (whose
  grouping is the browser's locale's), or an amount through \<open>formatCurrency\<close>.
\<close>

datatype rendered = Literal string | LocaleNumber nat | Currency "real option"

definition formatCurrency :: "real option \<Rightarrow> rendered" where
  "formatCurrency v = Currency v"

subsection \<open>\<open>formatFileSize\<close> (lines 119 to 125 and 461 to 467, the same text)\<close>

definition sizes :: "string list" where
  "sizes = [''Bytes'', ''KB'', ''MB'', ''GB'']"

definition formatFileSize :: "nat \<Rightarrow> string" where
  "formatFileSize bytes =
     (if bytes = 0 then ''0 Bytes''
      else (let k = 1024;
                i = floorLog k bytes;
                num = (case parseFloat (toFixed (of_nat bytes / of_nat k ^ i) 2) of
                         None \<Rightarrow> ''NaN''
                       | Some v \<Rightarrow> numberToString v)
            in num @ '' '' @ (if i < length sizes then sizes ! i else ''undefined'')))"

subsection \<open>The page\<close>

text \<open>
  What both variants share: the variables \<open>selectedFile\<close> and \<open>outputFilename\<close>, the text
  of the elements the script writes (\<open>error-message\<close>, \<open>progress-text\<close>, \<open>file-info\<close> and
  its class \<open>success\<close>, the value of \<open>file-input\<close>, the cards of the results panel), the
  requests sent so far and the lines of \<open>console.error\<close>.
\<close>

record common_page =
  selectedFile :: "selected_file option"
  outputFilename :: "string option"
  errorMessage :: string
  progressText :: string
  fileInfo_textContent :: string
  fileInfo_success :: bool
  fileInput_value :: string
  total_rows_text :: rendered
  asins_removed_text :: rendered
  campaigns_count_text :: rendered
  total_spend_text :: rendered
  total_sales_text :: rendered
  campaign_names :: "string list"
  requests :: "request list"
  console :: "string list"

text \<open>
  The simpler variant writes the \<open>style.display\<close> of its five panels without a test, so
  its page has all of them.
\<close>

datatype panel_simple =
    UploadSection_simple | SettingsSection | ProgressSection_simple
  | ResultsSection_simple | ErrorSection_simple

record page_simple = common_page +
  panels_simple :: "panel_simple \<Rightarrow> string"
  min_clicks :: string
  min_spend :: string
  flagged_count_text :: rendered

text \<open>
  The richer variant tests each panel for presence before it writes its display
  (\<open>if (uploadSection) ...\<close>), and the ASIN download button likewise: \<open>None\<close> is an
  element the page does not have, \<open>Some d\<close> one whose \<open>style.display\<close> is \<open>d\<close>.
\<close>

datatype panel = UploadSection | ProcessSection | ProgressSection | ResultsSection | ErrorSection

record distribution_card =
  card_title :: string
  mono_count :: nat
  monoPercent :: string
  bi_count :: nat
  biPercent :: string
  tri_count :: nat
  triPercent :: string

text \<open>A row of the archive list; the date is kept as received (\<open>formatDate\<close> is the locale's).\<close>

record archive_row =
  row_id :: string
  row_title :: string
  row_processedAt :: string
  row_filename :: string
  row_campaigns :: nat
  row_spend :: rendered
  row_sales :: rendered

record page = common_page +
  asinFilename :: "string option"
  lastProcessedData :: "upload_result option"
  analyticsData :: "analytics option"
  panels :: "panel \<Rightarrow> string option"
  downloadAsinBtn :: "string option"
  archiveBtn_innerHTML :: string
  archiveBtn_disabled :: bool
  archiveBtn_opacity :: string
  timers :: nat
  analytics_empty :: string
  analytics_content :: string
  analytics_campaigns :: rendered
  analytics_monograms :: rendered
  analytics_bigrams :: rendered
  analytics_trigrams :: rendered
  analytics_spend :: rendered
  analytics_sales :: rendered
  analytics_acos :: string
  analytics_orders :: rendered
  campaign_breakdown_body :: "(string \<times> rendered list) list"
  distribution_grid :: "distribution_card list"
  archive_empty :: string
  archive_content :: string
  archive_list :: "archive_row list"

subsection \<open>The simpler variant (lines 1 to 267)\<close>

text \<open>\<open>showSection\<close>, lines 211 to 238: the five writes of \<open>none\<close>, then the \<open>switch\<close>.\<close>

definition hideSections_simple :: "page_simple \<Rightarrow> page_simple" where
  "hideSections_simple s =
     s\<lparr>panels_simple := (panels_simple s)
         (UploadSection_simple := ''none'', SettingsSection := ''none'',
          ProgressSection_simple := ''none'', ResultsSection_simple := ''none'',
          ErrorSection_simple := ''none'')\<rparr>"

definition showSection_simple :: "string \<Rightarrow> page_simple \<Rightarrow> page_simple" where
  "showSection_simple section s =
     (let d = panels_simple (hideSections_simple s)
      in s\<lparr>panels_simple :=
           (if section = ''upload'' then d(UploadSection_simple := ''block'')
            else if section = ''settings''
              then d(UploadSection_simple := ''block'', SettingsSection := ''block'')
            else if section = ''progress'' then d(ProgressSection_simple := ''block'')
            else if section = ''results'' then d(ResultsSection_simple := ''block'')
            else if section = ''error'' then d(ErrorSection_simple := ''block'')
            else d)\<rparr>)"

definition updateProgress_simple :: "string \<Rightarrow> page_simple \<Rightarrow> page_simple" where
  "updateProgress_simple message s = s\<lparr>progressText := message\<rparr>"

definition showError_simple :: "string \<Rightarrow> page_simple \<Rightarrow> page_simple" where
  "showError_simple message s = showSection_simple ''error'' (s\<lparr>errorMessage := message\<rparr>)"

text \<open>\<open>handleFile\<close>, lines 93 to 117 (scrolling the panel into view changes no field).\<close>

definition handleFile_simple :: "selected_file \<Rightarrow> page_simple \<Rightarrow> page_simple completion" where
  "handleFile_simple file s =
     (if \<not> endsWith (toLowerCase (name file)) ''.csv''
        then Normal (showError_simple ''Please upload a CSV file.'' s)
      else if 50 * 1024 * 1024 < size_bytes file
        then Normal (showError_simple ''File size exceeds 50MB limit.'' s)
      else Normal (s\<lparr>selectedFile := Some file,
                      fileInfo_textContent :=
                        ''Selected: '' @ name file @ '' ('' @ formatFileSize (size_bytes file) @ '')'',
                      fileInfo_success := True,
                      panels_simple := (panels_simple s)(SettingsSection := ''block'')\<rparr>))"

text \<open>
  A statement \<open>el.textContent = result.summary.member.toLocaleString()\<close>: a
  \<open>TypeError\<close> when the summary or the member is missing.
\<close>

definition localeCount :: "upload_result \<Rightarrow> (summary \<Rightarrow> nat option) \<Rightarrow> rendered option" where
  "localeCount result member =
     (case summary result of
        None \<Rightarrow> None
      | Some sm \<Rightarrow> (case member sm of None \<Rightarrow> None | Some n \<Rightarrow> Some (LocaleNumber n)))"

definition currencyOf :: "upload_result \<Rightarrow> (summary \<Rightarrow> real option) \<Rightarrow> rendered option" where
  "currencyOf result member =
     (case summary result of None \<Rightarrow> None | Some sm \<Rightarrow> Some (formatCurrency (member sm)))"

definition assign :: "'v option \<Rightarrow> ('v \<Rightarrow> 's \<Rightarrow> 's) \<Rightarrow> 's \<Rightarrow> 's completion" where
  "assign v write s = (case v of None \<Rightarrow> Throw TypeError s | Some x \<Rightarrow> Normal (write x s))"

text \<open>\<open>displayResults\<close>, lines 165 to 187.\<close>

definition displayResults_simple :: "upload_result \<Rightarrow> page_simple \<Rightarrow> page_simple completion" where
  "displayResults_simple result =
     seq [assign (localeCount result original_rows) (\<lambda>v s. s\<lparr>total_rows_text := v\<rparr>),
          assign (localeCount result asins_removed) (\<lambda>v s. s\<lparr>asins_removed_text := v\<rparr>),
          assign (localeCount result campaigns_processed) (\<lambda>v s. s\<lparr>campaigns_count_text := v\<rparr>),
          assign (localeCount result total_flagged) (\<lambda>v s. s\<lparr>flagged_count_text := v\<rparr>),
          assign (currencyOf result total_spend) (\<lambda>v s. s\<lparr>total_spend_text := v\<rparr>),
          assign (currencyOf result total_sales) (\<lambda>v s. s\<lparr>total_sales_text := v\<rparr>),
          (\<lambda>s. Normal (s\<lparr>campaign_names := []\<rparr>)),
          assign (campaigns result) (\<lambda>cs s. s\<lparr>campaign_names := campaign_names s @ cs\<rparr>),
          (\<lambda>s. Normal (showSection_simple ''results'' s))]"

text \<open>
  \<open>processFile\<close>, lines 127 to 163. Whatever the \<open>try\<close> block throws (a rejected fetch, a
  body that is not JSON, a \<open>TypeError\<close> of \<open>displayResults\<close>) ends in the \<open>catch\<close>.
\<close>

definition processFile_simple ::
    "upload_result fetched \<Rightarrow> page_simple \<Rightarrow> page_simple completion" where
  "processFile_simple response s =
     (case selectedFile s of
        None \<Rightarrow> Normal (showError_simple ''Please select a file first.'' s)
      | Some file \<Rightarrow>
          (let s1 = updateProgress_simple ''Uploading file...'' (showSection_simple ''progress'' s);
               s2 = updateProgress_simple ''Processing CSV data...'' s1;
               s3 = s2\<lparr>requests := requests s2 @ [Upload_simple file (min_clicks s2) (min_spend s2)]\<rparr>;
               tried =
                 (case response of
                    Rejected \<Rightarrow> Throw NetworkError s3
                  | NotJson \<Rightarrow> Throw SyntaxError s3
                  | Json result \<Rightarrow>
                      if success result
                      then displayResults_simple result (s3\<lparr>outputFilename := output_file result\<rparr>)
                      else Normal (showError_simple
                             (orElse (error result) ''An error occurred while processing the file.'') s3))
           in (case tried of
                 Normal s' \<Rightarrow> Normal s'
               | Throw e s' \<Rightarrow>
                   Normal (showError_simple
                     ''Network error. Please check your connection and try again.''
                     (s'\<lparr>console := console s' @ [''Error:'']\<rparr>)))))"

text \<open>\<open>downloadFile\<close>, lines 196 to 209: the click on the link requests the file.\<close>

definition downloadFile_simple :: "page_simple \<Rightarrow> page_simple" where
  "downloadFile_simple s =
     (case outputFilename s of
        None \<Rightarrow> showError_simple ''No file available for download.'' s
      | Some f \<Rightarrow>
          if f = [] then showError_simple ''No file available for download.'' s
          else s\<lparr>requests := requests s @ [Download f]\<rparr>)"

text \<open>\<open>resetForm\<close>, lines 249 to 267.\<close>

definition resetForm_simple :: "page_simple \<Rightarrow> page_simple" where
  "resetForm_simple s =
     showSection_simple ''upload''
       (s\<lparr>selectedFile := None, outputFilename := None, fileInput_value := [],
          fileInfo_textContent := [], fileInfo_success := False,
          min_clicks := ''3'', min_spend := ''0.01''\<rparr>)"

definition visible_panels_simple :: "page_simple \<Rightarrow> panel_simple list" where
  "visible_panels_simple s =
     filter (\<lambda>p. panels_simple s p \<noteq> ''none'')
       [UploadSection_simple, SettingsSection, ProgressSection_simple,
        ResultsSection_simple, ErrorSection_simple]"

subsection \<open>The richer variant (lines 269 to 986)\<close>

text \<open>\<open>if (el) el.style.display = v\<close>.\<close>

definition setDisplay :: "panel \<Rightarrow> string \<Rightarrow> (panel \<Rightarrow> string option) \<Rightarrow> panel \<Rightarrow> string option" where
  "setDisplay p v d = (case d p of None \<Rightarrow> d | Some old \<Rightarrow> d(p := Some v))"

text \<open>\<open>showSection\<close>, lines 915 to 943: the five guarded writes of \<open>none\<close>, then the \<open>switch\<close>.\<close>

definition hideSections :: "page \<Rightarrow> page" where
  "hideSections s =
     s\<lparr>panels :=
         fold (\<lambda>p. setDisplay p ''none'')
           [UploadSection, ProcessSection, ProgressSection, ResultsSection, ErrorSection]
           (panels s)\<rparr>"

definition showSection :: "string \<Rightarrow> page \<Rightarrow> page" where
  "showSection section s =
     (let d = panels (hideSections s)
      in s\<lparr>panels :=
           (if section = ''upload'' then setDisplay UploadSection ''block'' d
            else if section = ''process''
              then setDisplay ProcessSection ''block'' (setDisplay UploadSection ''block'' d)
            else if section = ''progress'' then setDisplay ProgressSection ''block'' d
            else if section = ''results'' then setDisplay ResultsSection ''block'' d
            else if section = ''error'' then setDisplay ErrorSection ''block'' d
            else d)\<rparr>)"

definition updateProgress :: "string \<Rightarrow> page \<Rightarrow> page" where
  "updateProgress message s = s\<lparr>progressText := message\<rparr>"

definition showError :: "string \<Rightarrow> page \<Rightarrow> page" where
  "showError message s = showSection ''error'' (s\<lparr>errorMessage := message\<rparr>)"

text \<open>
  \<open>handleFile\<close>, lines 435 to 459. The write \<open>processSection.style.display = 'block'\<close> has
  no test: on a page without that panel it throws.
\<close>

definition handleFile :: "selected_file \<Rightarrow> page \<Rightarrow> page completion" where
  "handleFile file s =
     (if \<not> endsWith (toLowerCase (name file)) ''.csv''
        then Normal (showError ''Please upload a CSV file.'' s)
      else if 50 * 1024 * 1024 < size_bytes file
        then Normal (showError ''File size exceeds 50MB limit.'' s)
      else (let s1 = s\<lparr>selectedFile := Some file,
                        fileInfo_textContent :=
                          ''Selected: '' @ name file @ '' ('' @ formatFileSize (size_bytes file) @ '')'',
                        fileInfo_success := True\<rparr>
            in (case panels s1 ProcessSection of
                  None \<Rightarrow> Throw TypeError s1
                | Some old \<Rightarrow> Normal (s1\<lparr>panels := (panels s1)(ProcessSection := Some ''block'')\<rparr>))))"

text \<open>\<open>handleFileSelect\<close>, lines 428 to 433, on the list of files of the event.\<close>

definition handleFileSelect :: "selected_file list \<Rightarrow> page \<Rightarrow> page completion" where
  "handleFileSelect files s = (case files of [] \<Rightarrow> Normal s | file # rest \<Rightarrow> handleFile file s)"

text \<open>
  The object literal of lines 499 to 505: the summary's members (none when the response
  has no summary), then the four members of the snapshot.
\<close>

definition snapshot :: "upload_result \<Rightarrow> selected_file \<Rightarrow> string \<Rightarrow> analytics" where
  "snapshot result file now =
     \<lparr>original_rows = (case summary result of None \<Rightarrow> None | Some sm \<Rightarrow> original_rows sm),
      asins_removed = (case summary result of None \<Rightarrow> None | Some sm \<Rightarrow> asins_removed sm),
      campaigns_processed = (case summary result of None \<Rightarrow> None | Some sm \<Rightarrow> campaigns_processed sm),
      total_flagged = (case summary result of None \<Rightarrow> None | Some sm \<Rightarrow> total_flagged sm),
      total_spend = (case summary result of None \<Rightarrow> None | Some sm \<Rightarrow> total_spend sm),
      total_sales = (case summary result of None \<Rightarrow> None | Some sm \<Rightarrow> total_sales sm),
      total_orders = (case summary result of None \<Rightarrow> None | Some sm \<Rightarrow> total_orders sm),
      snapshot_campaigns = campaigns result,
      campaignDetails = Some (case campaign_details result of None \<Rightarrow> [] | Some ds \<Rightarrow> ds),
      filename = Some (name file),
      processedAt = Some now\<rparr>"

text \<open>\<open>displayResults\<close>, lines 517 to 547.\<close>

definition displayResults :: "upload_result \<Rightarrow> page \<Rightarrow> page completion" where
  "displayResults result =
     seq [assign (localeCount result original_rows) (\<lambda>v s. s\<lparr>total_rows_text := v\<rparr>),
          assign (localeCount result asins_removed) (\<lambda>v s. s\<lparr>asins_removed_text := v\<rparr>),
          assign (localeCount result campaigns_processed) (\<lambda>v s. s\<lparr>campaigns_count_text := v\<rparr>),
          assign (currencyOf result total_spend) (\<lambda>v s. s\<lparr>total_spend_text := v\<rparr>),
          assign (currencyOf result total_sales) (\<lambda>v s. s\<lparr>total_sales_text := v\<rparr>),
          (\<lambda>s. Normal (s\<lparr>campaign_names := []\<rparr>)),
          assign (campaigns result) (\<lambda>cs s. s\<lparr>campaign_names := campaign_names s @ cs\<rparr>),
          (\<lambda>s. Normal (s\<lparr>downloadAsinBtn :=
                 (case downloadAsinBtn s of
                    None \<Rightarrow> None
                  | Some old \<Rightarrow> Some (if falsy (asin_file result) then ''none'' else ''inline-flex''))\<rparr>)),
          (\<lambda>s. Normal (showSection ''results'' s))]"

text \<open>\<open>processFile\<close>, lines 469 to 515.\<close>

definition processFile :: "string \<Rightarrow> upload_result fetched \<Rightarrow> page \<Rightarrow> page completion" where
  "processFile now response s =
     (case selectedFile s of
        None \<Rightarrow> Normal (showError ''Please select a file first.'' s)
      | Some file \<Rightarrow>
          (let s1 = updateProgress ''Uploading file...'' (showSection ''progress'' s);
               s2 = updateProgress ''Processing CSV data...'' s1;
               s3 = s2\<lparr>requests := requests s2 @ [Upload file]\<rparr>;
               tried =
                 (case response of
                    Rejected \<Rightarrow> Throw NetworkError s3
                  | NotJson \<Rightarrow> Throw SyntaxError s3
                  | Json result \<Rightarrow>
                      if success result
                      then displayResults result
                             (s3\<lparr>outputFilename := output_file result,
                                 asinFilename := asin_file result,
                                 lastProcessedData := Some result,
                                 analyticsData := Some (snapshot result file now)\<rparr>)
                      else Normal (showError
                             (orElse (error result) ''An error occurred while processing the file.'') s3))
           in (case tried of
                 Normal s' \<Rightarrow> Normal s'
               | Throw e s' \<Rightarrow>
                   Normal (showError
                     ''Network error. Please check your connection and try again.''
                     (s'\<lparr>console := console s' @ [''Error:'']\<rparr>)))))"

text \<open>\<open>downloadFile\<close> and \<open>downloadAsinFile\<close>, lines 556 to 584.\<close>

definition downloadFile :: "page \<Rightarrow> page" where
  "downloadFile s =
     (case outputFilename s of
        None \<Rightarrow> showError ''No file available for download.'' s
      | Some f \<Rightarrow>
          if f = [] then showError ''No file available for download.'' s
          else s\<lparr>requests := requests s @ [Download f]\<rparr>)"

definition downloadAsinFile :: "page \<Rightarrow> page" where
  "downloadAsinFile s =
     (case asinFilename s of
        None \<Rightarrow> showError ''No ASIN file available for download.'' s
      | Some f \<Rightarrow>
          if f = [] then showError ''No ASIN file available for download.'' s
          else s\<lparr>requests := requests s @ [Download f]\<rparr>)"

text \<open>
  \<open>archiveReport\<close>, lines 586 to 639. The markup of the button is kept as its label; the
  callback of \<open>setTimeout\<close> is \<open>revertArchiveBtn\<close>, and \<open>timers\<close> counts the callbacks that
  are pending.
\<close>

definition revertArchiveBtn :: "page \<Rightarrow> page" where
  "revertArchiveBtn s =
     s\<lparr>archiveBtn_innerHTML := ''Archive Report'', archiveBtn_disabled := False,
       archiveBtn_opacity := ''1'', timers := timers s - 1\<rparr>"

definition archiveReport :: "string \<Rightarrow> archive_create_result fetched \<Rightarrow> page \<Rightarrow> page completion" where
  "archiveReport now response s =
     (case (outputFilename s, analyticsData s) of
        (Some f, Some a) \<Rightarrow>
          if f = [] then Normal (showError ''No report available to archive.'' s)
          else
            (let s1 = s\<lparr>requests := requests s @
                        [ArchiveCreate f
                           (case selectedFile s of None \<Rightarrow> ''Unknown'' | Some file \<Rightarrow> name file)
                           a now]\<rparr>;
                 tried =
                   (case response of
                      Rejected \<Rightarrow> Throw NetworkError s1
                    | NotJson \<Rightarrow> Throw SyntaxError s1
                    | Json result \<Rightarrow>
                        if create_success result
                        then Normal (s1\<lparr>archiveBtn_innerHTML := ''Archived!'',
                                        archiveBtn_disabled := True,
                                        archiveBtn_opacity := ''0.7'',
                                        timers := Suc (timers s1)\<rparr>)
                        else Normal (showError
                               (orElse (create_error result) ''Failed to archive report.'') s1))
             in (case tried of
                   Normal s' \<Rightarrow> Normal s'
                 | Throw e s' \<Rightarrow>
                     Normal (showError ''Failed to archive report. Please try again.''
                       (s'\<lparr>console := console s' @ [''Error archiving:'']\<rparr>))))
      | _ \<Rightarrow> Normal (showError ''No report available to archive.'' s))"

text \<open>\<open>loadArchive\<close>, lines 641 to 711.\<close>

definition archiveRow :: "archive_item \<Rightarrow> archive_row" where
  "archiveRow item =
     \<lparr>row_id = item_id item,
      row_title = orElse (originalFilename item) ''Search Term Report'',
      row_processedAt = item_processedAt item,
      row_filename = item_filename item,
      row_campaigns = (case item_summary item of None \<Rightarrow> 0 | Some a \<Rightarrow> orZero (campaigns_processed a)),
      row_spend = formatCurrency
        (Some (case item_summary item of None \<Rightarrow> 0 | Some a \<Rightarrow> orZero (total_spend a))),
      row_sales = formatCurrency
        (Some (case item_summary item of None \<Rightarrow> 0 | Some a \<Rightarrow> orZero (total_sales a)))\<rparr>"

definition loadArchive :: "archive_list_result fetched \<Rightarrow> page \<Rightarrow> page completion" where
  "loadArchive response s =
     (let s1 = s\<lparr>requests := requests s @ [ArchiveList]\<rparr>;
          placeholder = s1\<lparr>archive_empty := ''block'', archive_content := ''none''\<rparr>;
          tried =
            (case response of
               Rejected \<Rightarrow> Throw NetworkError s1
             | NotJson \<Rightarrow> Throw SyntaxError s1
             | Json result \<Rightarrow>
                 if list_success result
                 then (case archives result of
                         None \<Rightarrow> Normal placeholder
                       | Some items \<Rightarrow>
                           if 0 < length items
                           then Normal (s1\<lparr>archive_empty := ''none'', archive_content := ''block'',
                                           archive_list := map archiveRow items\<rparr>)
                           else Normal placeholder)
                 else Normal placeholder)
      in (case tried of
            Normal s' \<Rightarrow> Normal s'
          | Throw e s' \<Rightarrow> Normal (s'\<lparr>console := console s' @ [''Error loading archive:'']\<rparr>)))"






text \<open>\<open>resetForm\<close>, lines 954 to 986.\<close>

definition resetForm :: "page \<Rightarrow> page" where
  "resetForm s =
     showSection ''upload''
       (s\<lparr>selectedFile := None, outputFilename := None, asinFilename := None,
          fileInput_value := [], fileInfo_textContent := [], fileInfo_success := False,
          archiveBtn_innerHTML := ''Archive Report'', archiveBtn_disabled := False,
          archiveBtn_opacity := ''1'',
          downloadAsinBtn := (case downloadAsinBtn s of None \<Rightarrow> None | Some old \<Rightarrow> Some ''none'')\<rparr>)"

definition visible_panels :: "page \<Rightarrow> panel list" where
  "visible_panels s =
     filter (\<lambda>p. case panels s p of None \<Rightarrow> False | Some d \<Rightarrow> d \<noteq> ''none'')
       [UploadSection, ProcessSection, ProgressSection, ResultsSection, ErrorSection]"

subsection \<open>Example values\<close>

text \<open>
  A page as the script finds it when it has loaded, with all five panels and the upload
  panel shown; a file; and a response of \<open>POST /upload\<close> for one campaign.
\<close>

definition initial_page :: page where
  "initial_page =
     \<lparr>selectedFile = None, outputFilename = None, errorMessage = [], progressText = [],
      fileInfo_textContent = [], fileInfo_success = False, fileInput_value = [],
      total_rows_text = Literal ''0'', asins_removed_text = Literal ''0'',
      campaigns_count_text = Literal ''0'', total_spend_text = Literal ''$0.00'',
      total_sales_text = Literal ''$0.00'', campaign_names = [], requests = [], console = [],
      asinFilename = None, lastProcessedData = None, analyticsData = None,
      panels = (\<lambda>p. Some (if p = UploadSection then ''block'' else ''none'')),
      downloadAsinBtn = Some ''none'', archiveBtn_innerHTML = ''Archive Report'',
      archiveBtn_disabled = False, archiveBtn_opacity = ''1'', timers = 0,
      analytics_empty = ''block'', analytics_content = ''none'',
      analytics_campaigns = Literal ''0'', analytics_monograms = Literal ''0'',
      analytics_bigrams = Literal ''0'', analytics_trigrams = Literal ''0'',
      analytics_spend = Literal ''$0.00'', analytics_sales = Literal ''$0.00'',
      analytics_acos = ''0%'', analytics_orders = Literal ''0'',
      campaign_breakdown_body = [], distribution_grid = [],
      archive_empty = ''block'', archive_content = ''none'', archive_list = []\<rparr>"

definition initial_page_simple :: page_simple where
  "initial_page_simple =
     \<lparr>selectedFile = None, outputFilename = None, errorMessage = [], progressText = [],
      fileInfo_textContent = [], fileInfo_success = False, fileInput_value = [],
      total_rows_text = Literal ''0'', asins_removed_text = Literal ''0'',
      campaigns_count_text = Literal ''0'', total_spend_text = Literal ''$0.00'',
      total_sales_text = Literal ''$0.00'', campaign_names = [], requests = [], console = [],
      panels_simple = (\<lambda>p. if p = UploadSection_simple then ''block'' else ''none''),
      min_clicks = ''3'', min_spend = ''0.01'', flagged_count_text = Literal ''0''\<rparr>"

definition example_file :: selected_file where
  "example_file = \<lparr>name = ''Report.CSV'', size_bytes = 1536\<rparr>"

definition example_detail :: campaign_detail where
  "example_detail =
     \<lparr>monograms = Some 1, bigrams = Some 1, trigrams = Some 2, search_terms = Some 3,
      spend = Some 50, sales = Some 200\<rparr>"

definition example_result :: upload_result where
  "example_result =
     \<lparr>success = True, output_file = Some ''ngrams.xlsx'', asin_file = None,
      summary = Some \<lparr>original_rows = Some 10, asins_removed = Some 2,
                       campaigns_processed = Some 1, total_flagged = Some 4,
                       total_spend = Some 50, total_sales = Some 200, total_orders = None\<rparr>,
      campaigns = Some [''Brand''],
      campaign_details = Some [(''Brand'', example_detail)],
      error = None\<rparr>"

text \<open>
  The members \<open>displayResults\<close> calls \<open>toLocaleString\<close> or \<open>forEach\<close> on: a response of
  \<open>POST /upload\<close> that has them all is displayed without a \<open>TypeError\<close>.
\<close>

definition displayable :: "upload_result \<Rightarrow> bool" where
  "displayable result =
     (localeCount result original_rows \<noteq> None \<and> localeCount result asins_removed \<noteq> None \<and>
      localeCount result campaigns_processed \<noteq> None \<and> campaigns result \<noteq> None)"

definition displayable_simple :: "upload_result \<Rightarrow> bool" where
  "displayable_simple result = (displayable result \<and> localeCount result total_flagged \<noteq> None)"

subsection \<open>The specification's wording of the analytics figures\<close>










subsection \<open>The panels after \<open>showSection\<close>\<close>

lemma setDisplay_apply:
  "setDisplay q v d p = (if p = q \<and> d p \<noteq> None then Some v else d p)"
  by (auto simp: setDisplay_def split: option.splits)

lemma panels_hideSections:
  "panels (hideSections s) p = (case panels s p of None \<Rightarrow> None | Some d \<Rightarrow> Some ''none'')"
  by (cases p) (simp_all add: hideSections_def setDisplay_apply split: option.splits)

lemma visible_hideSections: "visible_panels (hideSections s) = []"
  by (simp add: visible_panels_def panels_hideSections split: option.splits)

lemma panels_show_upload:
  "panels (showSection ''upload'' s) p =
     (case panels s p of None \<Rightarrow> None
      | Some d \<Rightarrow> Some (if p = UploadSection then ''block'' else ''none''))"
  by (simp add: showSection_def Let_def setDisplay_apply panels_hideSections split: option.splits)

lemma panels_show_process:
  "panels (showSection ''process'' s) p =
     (case panels s p of None \<Rightarrow> None
      | Some d \<Rightarrow> Some (if p = UploadSection \<or> p = ProcessSection then ''block'' else ''none''))"
  by (simp add: showSection_def Let_def setDisplay_apply panels_hideSections split: option.splits)

lemma panels_show_progress:
  "panels (showSection ''progress'' s) p =
     (case panels s p of None \<Rightarrow> None
      | Some d \<Rightarrow> Some (if p = ProgressSection then ''block'' else ''none''))"
  by (simp add: showSection_def Let_def setDisplay_apply panels_hideSections split: option.splits)

lemma panels_show_results:
  "panels (showSection ''results'' s) p =
     (case panels s p of None \<Rightarrow> None
      | Some d \<Rightarrow> Some (if p = ResultsSection then ''block'' else ''none''))"
  by (simp add: showSection_def Let_def setDisplay_apply panels_hideSections split: option.splits)

lemma panels_show_error:
  "panels (showSection ''error'' s) p =
     (case panels s p of None \<Rightarrow> None
      | Some d \<Rightarrow> Some (if p = ErrorSection then ''block'' else ''none''))"
  by (simp add: showSection_def Let_def setDisplay_apply panels_hideSections split: option.splits)

lemma panels_show_other:
  "section \<notin> {''upload'', ''process'', ''progress'', ''results'', ''error''} \<Longrightarrow>
   panels (showSection section s) p =
     (case panels s p of None \<Rightarrow> None | Some d \<Rightarrow> Some ''none'')"
  by (simp add: showSection_def Let_def panels_hideSections)

lemmas panels_show =
  panels_show_upload panels_show_process panels_show_progress panels_show_results
  panels_show_error

lemma present_showSection: "(panels (showSection section s) p = None) = (panels s p = None)"
  by (cases "section \<in> {''upload'', ''process'', ''progress'', ''results'', ''error''}")
     (auto simp: panels_show panels_show_other split: option.splits)

lemma visible_show_upload:
  "visible_panels (showSection ''upload'' s) = filter (\<lambda>p. panels s p \<noteq> None) [UploadSection]"
  by (simp add: visible_panels_def panels_show split: option.splits)

lemma visible_show_process:
  "visible_panels (showSection ''process'' s) =
     filter (\<lambda>p. panels s p \<noteq> None) [UploadSection, ProcessSection]"
  by (simp add: visible_panels_def panels_show split: option.splits)

lemma visible_show_progress:
  "visible_panels (showSection ''progress'' s) = filter (\<lambda>p. panels s p \<noteq> None) [ProgressSection]"
  by (simp add: visible_panels_def panels_show split: option.splits)

lemma visible_show_results:
  "visible_panels (showSection ''results'' s) = filter (\<lambda>p. panels s p \<noteq> None) [ResultsSection]"
  by (simp add: visible_panels_def panels_show split: option.splits)

lemma visible_show_error:
  "visible_panels (showSection ''error'' s) = filter (\<lambda>p. panels s p \<noteq> None) [ErrorSection]"
  by (simp add: visible_panels_def panels_show split: option.splits)

lemma visible_show_other:
  "section \<notin> {''upload'', ''process'', ''progress'', ''results'', ''error''} \<Longrightarrow>
   visible_panels (showSection section s) = []"
  by (simp add: visible_panels_def panels_show_other split: option.splits)

lemmas visible_show =
  visible_show_upload visible_show_process visible_show_progress visible_show_results
  visible_show_error

lemma visible_showSection:
  "visible_panels (showSection section s) =
     filter (\<lambda>p. panels s p \<noteq> None)
       (if section = ''upload'' then [UploadSection]
        else if section = ''process'' then [UploadSection, ProcessSection]
        else if section = ''progress'' then [ProgressSection]
        else if section = ''results'' then [ResultsSection]
        else if section = ''error'' then [ErrorSection]
        else [])"
proof (cases "section \<in> {''upload'', ''process'', ''progress'', ''results'', ''error''}")
  case True
  then show ?thesis by (auto simp: visible_show)
next
  case False
  then show ?thesis using visible_show_other [OF False] by auto
qed

lemma showError_fields:
  "panels (showError message s) p =
     (case panels s p of None \<Rightarrow> None
      | Some d \<Rightarrow> Some (if p = ErrorSection then ''block'' else ''none''))"
  "errorMessage (showError message s) = message"
  "selectedFile (showError message s) = selectedFile s"
  "outputFilename (showError message s) = outputFilename s"
  "asinFilename (showError message s) = asinFilename s"
  "analyticsData (showError message s) = analyticsData s"
  "lastProcessedData (showError message s) = lastProcessedData s"
  "requests (showError message s) = requests s"
  by (simp_all add: showError_def panels_show) (simp_all add: showSection_def Let_def)

lemma visible_showError:
  "visible_panels (showError message s) = filter (\<lambda>p. panels s p \<noteq> None) [ErrorSection]"
  by (simp add: showError_def visible_show)

lemma visible_showSection_simple:
  "visible_panels_simple (showSection_simple section t) =
     (if section = ''upload'' then [UploadSection_simple]
      else if section = ''settings'' then [UploadSection_simple, SettingsSection]
      else if section = ''progress'' then [ProgressSection_simple]
      else if section = ''results'' then [ResultsSection_simple]
      else if section = ''error'' then [ErrorSection_simple]
      else [])"
  by (simp add: visible_panels_simple_def showSection_simple_def hideSections_simple_def Let_def)

lemma visible_hideSections_simple: "visible_panels_simple (hideSections_simple t) = []"
  by (simp add: visible_panels_simple_def hideSections_simple_def)

lemma showError_simple_fields:
  "errorMessage (showError_simple message t) = message"
  "selectedFile (showError_simple message t) = selectedFile t"
  "outputFilename (showError_simple message t) = outputFilename t"
  "requests (showError_simple message t) = requests t"
  by (simp_all add: showError_simple_def showSection_simple_def Let_def)

lemma visible_showError_simple:
  "visible_panels_simple (showError_simple message t) = [ErrorSection_simple]"
  by (simp add: showError_simple_def visible_showSection_simple)

subsection \<open>The outcome of \<open>processFile\<close>\<close>

lemma displayResults_Normal:
  assumes "displayable result"
  shows "\<exists>s'. displayResults result s = Normal (showSection ''results'' s') \<and>
    panels s' = panels s \<and> lastProcessedData s' = lastProcessedData s \<and>
    analyticsData s' = analyticsData s"
  using assms
  by (auto simp: displayResults_def displayable_def assign_def localeCount_def currencyOf_def
      split: option.splits)

lemma displayResults_Throw:
  assumes "\<not> displayable result"
  shows "\<exists>s'. displayResults result s = Throw TypeError s' \<and>
    panels s' = panels s \<and> lastProcessedData s' = lastProcessedData s \<and>
    analyticsData s' = analyticsData s"
  using assms
  by (auto simp: displayResults_def displayable_def assign_def localeCount_def currencyOf_def
      split: option.splits)

lemma displayResults_simple_Normal:
  assumes "displayable_simple result"
  shows "\<exists>t'. displayResults_simple result t = Normal (showSection_simple ''results'' t')"
  using assms
  by (auto simp: displayResults_simple_def displayable_simple_def displayable_def assign_def
      localeCount_def currencyOf_def split: option.splits)

lemma displayResults_simple_Throw:
  assumes "\<not> displayable_simple result"
  shows "\<exists>t'. displayResults_simple result t = Throw TypeError t'"
  using assms
  by (auto simp: displayResults_simple_def displayable_simple_def displayable_def assign_def
      localeCount_def currencyOf_def split: option.splits)

lemma showSection_frame:
  "selectedFile (showSection section s) = selectedFile s"
  "outputFilename (showSection section s) = outputFilename s"
  "asinFilename (showSection section s) = asinFilename s"
  "lastProcessedData (showSection section s) = lastProcessedData s"
  "analyticsData (showSection section s) = analyticsData s"
  "errorMessage (showSection section s) = errorMessage s"
  "requests (showSection section s) = requests s"
  "console (showSection section s) = console s"
  by (simp_all add: showSection_def Let_def)

lemma processFile_no_file:
  "selectedFile s = None \<Longrightarrow>
   processFile now response s = Normal (showError ''Please select a file first.'' s)"
  by (simp add: processFile_def)

lemma processFile_outcome:
  assumes "selectedFile s = Some file"
  shows "\<exists>s'. processFile now response s =
           Normal (showSection
             (case response of
                Json result \<Rightarrow> if success result \<and> displayable result then ''results'' else ''error''
              | _ \<Rightarrow> ''error'') s')
         \<and> (\<forall>p. (panels s' p = None) = (panels s p = None))
         \<and> (\<forall>result. response = Json result \<and> success result \<longrightarrow>
               lastProcessedData s' = Some result \<and>
               analyticsData s' = Some (snapshot result file now))"
proof (cases response)
  case Rejected
  then show ?thesis using assms
    by (auto simp: processFile_def Let_def showError_def updateProgress_def present_showSection)
next
  case NotJson
  then show ?thesis using assms
    by (auto simp: processFile_def Let_def showError_def updateProgress_def present_showSection)
next
  case (Json result)
  show ?thesis
  proof (cases "success result")
    case False
    then show ?thesis using assms Json
      by (auto simp: processFile_def Let_def showError_def updateProgress_def present_showSection)
  next
    case True
    let ?s3 = "(updateProgress ''Processing CSV data...''
                 (updateProgress ''Uploading file...'' (showSection ''progress'' s)))
               \<lparr>requests := requests s @ [Upload file],
                 outputFilename := output_file result, asinFilename := asin_file result,
                 lastProcessedData := Some result,
                 analyticsData := Some (snapshot result file now)\<rparr>"
    have p3: "\<And>p. (panels ?s3 p = None) = (panels s p = None)"
      by (simp add: updateProgress_def present_showSection)
    have pf: "processFile now response s =
        (case displayResults result ?s3 of
           Normal s' \<Rightarrow> Normal s'
         | Throw e s' \<Rightarrow>
             Normal (showError ''Network error. Please check your connection and try again.''
               (s'\<lparr>console := console s' @ [''Error:'']\<rparr>)))"
      using assms Json True
      by (simp add: processFile_def Let_def updateProgress_def showSection_frame)
    show ?thesis
    proof (cases "displayable result")
      case True
      from displayResults_Normal [OF True, of ?s3] obtain s'
        where "displayResults result ?s3 = Normal (showSection ''results'' s')"
          and "panels s' = panels ?s3"
          and "lastProcessedData s' = lastProcessedData ?s3"
          and "analyticsData s' = analyticsData ?s3" by blast
      then show ?thesis using pf Json True \<open>success result\<close> p3 by auto
    next
      case False
      from displayResults_Throw [OF False, of ?s3] obtain s'
        where "displayResults result ?s3 = Throw TypeError s'"
          and "panels s' = panels ?s3"
          and "lastProcessedData s' = lastProcessedData ?s3"
          and "analyticsData s' = analyticsData ?s3" by blast
      then show ?thesis using pf Json False \<open>success result\<close> p3 by (auto simp: showError_def)
    qed
  qed
qed

lemma processFile_visible:
  assumes "\<forall>p. panels s p \<noteq> None"
  shows "visible_panels (state_of (processFile now response s)) =
     (case (selectedFile s, response) of
        (Some file, Json result) \<Rightarrow>
          if success result \<and> displayable result then [ResultsSection] else [ErrorSection]
      | _ \<Rightarrow> [ErrorSection])"
proof (cases "selectedFile s")
  case None
  then show ?thesis using assms by (simp add: processFile_no_file visible_showError)
next
  case (Some f)
  from processFile_outcome [OF Some, of now response] obtain s' where
    eq: "processFile now response s =
           Normal (showSection
             (case response of
                Json result \<Rightarrow> if success result \<and> displayable result then ''results'' else ''error''
              | _ \<Rightarrow> ''error'') s')"
    and pres: "\<forall>p. (panels s' p = None) = (panels s p = None)" by blast
  from pres assms have full: "\<forall>p. panels s' p \<noteq> None" by simp
  show ?thesis using Some full eq
    by (cases response) (auto simp: visible_show)
qed

lemma processFile_not_threw: "\<not> threw (processFile now response s)"
proof (cases "selectedFile s")
  case None
  then show ?thesis by (simp add: processFile_no_file)
next
  case (Some f)
  from processFile_outcome [OF Some, of now response] show ?thesis by auto
qed

lemma processFile_simple_no_file:
  "selectedFile t = None \<Longrightarrow>
   processFile_simple response t = Normal (showError_simple ''Please select a file first.'' t)"
  by (simp add: processFile_simple_def)

lemma processFile_simple_outcome:
  assumes "selectedFile t = Some file"
  shows "\<exists>t'. processFile_simple response t =
           Normal (showSection_simple
             (case response of
                Json result \<Rightarrow>
                  if success result \<and> displayable_simple result then ''results'' else ''error''
              | _ \<Rightarrow> ''error'') t')"
proof (cases response)
  case Rejected
  then show ?thesis using assms
    by (auto simp: processFile_simple_def Let_def showError_simple_def)
next
  case NotJson
  then show ?thesis using assms
    by (auto simp: processFile_simple_def Let_def showError_simple_def)
next
  case (Json result)
  show ?thesis
  proof (cases "success result")
    case False
    then show ?thesis using assms Json
      by (auto simp: processFile_simple_def Let_def showError_simple_def)
  next
    case True
    let ?t3 = "(updateProgress_simple ''Processing CSV data...''
                 (updateProgress_simple ''Uploading file...'' (showSection_simple ''progress'' t)))
               \<lparr>requests := requests t @ [Upload_simple file (min_clicks t) (min_spend t)],
                 outputFilename := output_file result\<rparr>"
    have pf: "processFile_simple response t =
        (case displayResults_simple result ?t3 of
           Normal t' \<Rightarrow> Normal t'
         | Throw e t' \<Rightarrow>
             Normal (showError_simple ''Network error. Please check your connection and try again.''
               (t'\<lparr>console := console t' @ [''Error:'']\<rparr>)))"
      using assms Json True
      by (simp add: processFile_simple_def Let_def updateProgress_simple_def
          showSection_simple_def)
    show ?thesis
    proof (cases "displayable_simple result")
      case d: True
      from displayResults_simple_Normal [OF d, of ?t3] obtain t'
        where "displayResults_simple result ?t3 = Normal (showSection_simple ''results'' t')"
        by blast
      then show ?thesis using pf Json True d by auto
    next
      case d: False
      from displayResults_simple_Throw [OF d, of ?t3] obtain t'
        where "displayResults_simple result ?t3 = Throw TypeError t'" by blast
      then show ?thesis using pf Json True d by (auto simp: showError_simple_def)
    qed
  qed
qed

lemma processFile_simple_visible:
  "visible_panels_simple (state_of (processFile_simple response t)) =
     (case (selectedFile t, response) of
        (Some file, Json result) \<Rightarrow>
          if success result \<and> displayable_simple result
          then [ResultsSection_simple] else [ErrorSection_simple]
      | _ \<Rightarrow> [ErrorSection_simple])"
proof (cases "selectedFile t")
  case None
  then show ?thesis by (simp add: processFile_simple_no_file visible_showError_simple)
next
  case (Some f)
  from processFile_simple_outcome [OF Some, of response] obtain t' where
    eq: "processFile_simple response t =
           Normal (showSection_simple
             (case response of
                Json result \<Rightarrow>
                  if success result \<and> displayable_simple result then ''results'' else ''error''
              | _ \<Rightarrow> ''error'') t')" by blast
  show ?thesis using Some eq
    by (cases response) (auto simp: visible_showSection_simple)
qed

lemma processFile_simple_not_threw: "\<not> threw (processFile_simple response t)"
proof (cases "selectedFile t")
  case None
  then show ?thesis by (simp add: processFile_simple_no_file)
next
  case (Some f)
  from processFile_simple_outcome [OF Some, of response] show ?thesis by auto
qed

subsection \<open>Panels, guards and error paths\<close>

text \<open>
  C1. On a page that has its five panels, \<open>showSection\<close> leaves exactly the panels of
  the requested state visible: the upload panel and the process panel (the settings panel
  in the simpler variant) for \<open>process\<close> (\<open>settings\<close>), one panel for each other state it
  knows; the hiding writes alone leave none visible. \<open>showError\<close> leaves exactly the error
  panel. \<open>processFile\<close> never throws, and ends with exactly the results panel when a file
  is selected and the response is a success that \<open>displayResults\<close> can display, and with
  exactly the error panel on every other path.
\<close>

theorem showSection_exactly:
  fixes s :: page and t :: page_simple
  assumes "\<forall>p. panels s p \<noteq> None"
  shows
    "visible_panels (hideSections s) = [] \<and>
     visible_panels (showSection section s) =
       (if section = ''upload'' then [UploadSection]
        else if section = ''process'' then [UploadSection, ProcessSection]
        else if section = ''progress'' then [ProgressSection]
        else if section = ''results'' then [ResultsSection]
        else if section = ''error'' then [ErrorSection]
        else []) \<and>
     visible_panels (showError message s) = [ErrorSection] \<and>
     visible_panels (state_of (processFile now response s)) =
       (case (selectedFile s, response) of
          (Some file, Json result) \<Rightarrow>
            if success result \<and> displayable result then [ResultsSection] else [ErrorSection]
        | _ \<Rightarrow> [ErrorSection]) \<and>
     \<not> threw (processFile now response s) \<and>
     visible_panels_simple (hideSections_simple t) = [] \<and>
     visible_panels_simple (showSection_simple section t) =
       (if section = ''upload'' then [UploadSection_simple]
        else if section = ''settings'' then [UploadSection_simple, SettingsSection]
        else if section = ''progress'' then [ProgressSection_simple]
        else if section = ''results'' then [ResultsSection_simple]
        else if section = ''error'' then [ErrorSection_simple]
        else []) \<and>
     visible_panels_simple (showError_simple message t) = [ErrorSection_simple] \<and>
     visible_panels_simple (state_of (processFile_simple response t)) =
       (case (selectedFile t, response) of
          (Some file, Json result) \<Rightarrow>
            if success result \<and> displayable_simple result
            then [ResultsSection_simple] else [ErrorSection_simple]
        | _ \<Rightarrow> [ErrorSection_simple]) \<and>
     \<not> threw (processFile_simple response t)"
proof -
  have full: "filter (\<lambda>p. panels s p \<noteq> None) xs = xs" for xs
    using assms by simp
  have "visible_panels (showSection section s) =
       (if section = ''upload'' then [UploadSection]
        else if section = ''process'' then [UploadSection, ProcessSection]
        else if section = ''progress'' then [ProgressSection]
        else if section = ''results'' then [ResultsSection]
        else if section = ''error'' then [ErrorSection]
        else [])"
    by (simp only: visible_showSection full)
  moreover have "visible_panels (showError message s) = [ErrorSection]"
    by (simp only: visible_showError full)
  ultimately show ?thesis
    using processFile_visible [OF assms] visible_hideSections processFile_not_threw
      visible_hideSections_simple visible_showSection_simple visible_showError_simple
      processFile_simple_visible processFile_simple_not_threw
    by simp
qed

theorem showSection_exactly_witness:
  "(\<forall>p. panels (initial_page\<lparr>selectedFile := Some example_file\<rparr>) p \<noteq> None) \<and>
   visible_panels (showSection ''process'' (initial_page\<lparr>selectedFile := Some example_file\<rparr>)) =
     [UploadSection, ProcessSection] \<and>
   visible_panels (state_of (processFile ''2024-05-01T10:00:00.000Z'' (Json example_result)
     (initial_page\<lparr>selectedFile := Some example_file\<rparr>))) = [ResultsSection] \<and>
   visible_panels_simple (state_of (processFile_simple (Json example_result)
     (initial_page_simple\<lparr>selectedFile := Some example_file\<rparr>))) = [ResultsSection_simple]"
proof -
  have full: "\<forall>p. panels (initial_page\<lparr>selectedFile := Some example_file\<rparr>) p \<noteq> None"
    by (simp add: initial_page_def)
  have d: "displayable example_result" "displayable_simple example_result" "success example_result"
    by (simp_all add: displayable_def displayable_simple_def localeCount_def example_result_def)
  show ?thesis
    using full d
      showSection_exactly [OF full, of "''process''" _ "''2024-05-01T10:00:00.000Z''"
        "Json example_result" "initial_page_simple\<lparr>selectedFile := Some example_file\<rparr>"]
    by simp
qed

text \<open>
  C10. For an argument that is none of the five state names of its variant, \<open>showSection\<close>
  does the hiding writes and nothing else: no panel is visible afterwards.
\<close>

theorem showSection_unrecognized:
  "(section \<notin> {''upload'', ''process'', ''progress'', ''results'', ''error''} \<longrightarrow>
      showSection section s = hideSections s \<and> visible_panels (showSection section s) = []) \<and>
   (section \<notin> {''upload'', ''settings'', ''progress'', ''results'', ''error''} \<longrightarrow>
      showSection_simple section t = hideSections_simple t \<and>
      visible_panels_simple (showSection_simple section t) = [])"
  by (simp add: visible_show_other visible_showSection_simple)
     (simp add: showSection_def showSection_simple_def hideSections_def hideSections_simple_def
       Let_def)

theorem showSection_unrecognized_witness:
  "''settings'' \<notin> {''upload'', ''process'', ''progress'', ''results'', ''error''} \<and>
   visible_panels (showSection ''settings'' initial_page) = [] \<and>
   ''process'' \<notin> {''upload'', ''settings'', ''progress'', ''results'', ''error''} \<and>
   visible_panels_simple (showSection_simple ''process'' initial_page_simple) = []"
  using showSection_unrecognized [of "''settings''" initial_page initial_page_simple]
    showSection_unrecognized [of "''process''" initial_page initial_page_simple]
  by (simp add: visible_hideSections visible_hideSections_simple)

text \<open>
  C4. With no file selected, \<open>processFile\<close> returns after \<open>showError\<close>: the message is
  set, no request is sent, and \<open>outputFilename\<close> and \<open>analyticsData\<close> are as before.
\<close>

theorem processFile_requires_file:
  fixes s :: page and t :: page_simple
  assumes "selectedFile s = None" and "selectedFile t = None"
  shows
    "processFile now response s = Normal (showError ''Please select a file first.'' s) \<and>
     errorMessage (state_of (processFile now response s)) = ''Please select a file first.'' \<and>
     requests (state_of (processFile now response s)) = requests s \<and>
     outputFilename (state_of (processFile now response s)) = outputFilename s \<and>
     analyticsData (state_of (processFile now response s)) = analyticsData s \<and>
     processFile_simple response t =
       Normal (showError_simple ''Please select a file first.'' t) \<and>
     errorMessage (state_of (processFile_simple response t)) = ''Please select a file first.'' \<and>
     requests (state_of (processFile_simple response t)) = requests t \<and>
     outputFilename (state_of (processFile_simple response t)) = outputFilename t"
  using assms
  by (simp add: processFile_no_file processFile_simple_no_file showError_fields
      showError_simple_fields)

theorem processFile_requires_file_witness:
  "selectedFile initial_page = None \<and> selectedFile initial_page_simple = None \<and>
   requests (state_of (processFile ''2024-05-01T10:00:00.000Z'' (Json example_result) initial_page)) = [] \<and>
   outputFilename (state_of (processFile ''2024-05-01T10:00:00.000Z'' (Json example_result) initial_page)) = None \<and>
   analyticsData (state_of (processFile ''2024-05-01T10:00:00.000Z'' (Json example_result) initial_page)) = None \<and>
   requests (state_of (processFile_simple (Json example_result) initial_page_simple)) = []"
proof -
  have n: "selectedFile initial_page = None" "selectedFile initial_page_simple = None"
    by (simp_all add: initial_page_def initial_page_simple_def)
  have i: "requests initial_page = []" "outputFilename initial_page = None"
    "analyticsData initial_page = None" "requests initial_page_simple = []"
    by (simp_all add: initial_page_def initial_page_simple_def)
  show ?thesis
    using n i processFile_requires_file [OF n, of "''2024-05-01T10:00:00.000Z''" "Json example_result"]
    by (simp add: showError_fields showError_simple_fields)
qed

lemma handleFile_accepts_upper_case:
  "selectedFile (state_of (handleFile example_file initial_page)) = Some example_file \<and>
   \<not> threw (handleFile example_file initial_page) \<and>
   requests (state_of (handleFile example_file initial_page)) = []"
  by (simp add: handleFile_def example_file_def initial_page_def endsWith_def toLowerCase_def
      lowerChar_def Let_def)

text \<open>
  C3. For a file whose name in lower case does not end in \<open>.csv\<close>, or whose size is above
  52,428,800 bytes, \<open>handleFile\<close> returns after \<open>showError\<close>: a message is set and shown
  in the error panel, \<open>selectedFile\<close> is as before and no request is sent.
\<close>

theorem handleFile_rejects:
  fixes s :: page and t :: page_simple
  assumes "\<not> endsWith (toLowerCase (name file)) ''.csv'' \<or> 52428800 < size_bytes file"
  shows
    "handleFile file s =
       Normal (showError
         (if \<not> endsWith (toLowerCase (name file)) ''.csv'' then ''Please upload a CSV file.''
          else ''File size exceeds 50MB limit.'') s) \<and>
     errorMessage (state_of (handleFile file s)) \<noteq> [] \<and>
     visible_panels (state_of (handleFile file s)) =
       filter (\<lambda>p. panels s p \<noteq> None) [ErrorSection] \<and>
     selectedFile (state_of (handleFile file s)) = selectedFile s \<and>
     requests (state_of (handleFile file s)) = requests s \<and>
     handleFile_simple file t =
       Normal (showError_simple
         (if \<not> endsWith (toLowerCase (name file)) ''.csv'' then ''Please upload a CSV file.''
          else ''File size exceeds 50MB limit.'') t) \<and>
     errorMessage (state_of (handleFile_simple file t)) \<noteq> [] \<and>
     visible_panels_simple (state_of (handleFile_simple file t)) = [ErrorSection_simple] \<and>
     selectedFile (state_of (handleFile_simple file t)) = selectedFile t \<and>
     requests (state_of (handleFile_simple file t)) = requests t"
  using assms
  by (auto simp: handleFile_def handleFile_simple_def showError_fields showError_simple_fields
      visible_showError visible_showError_simple)

theorem handleFile_rejects_witness:
  "\<not> endsWith (toLowerCase (name \<lparr>name = ''notes.TXT'', size_bytes = 10\<rparr>)) ''.csv'' \<and>
   errorMessage (state_of (handleFile \<lparr>name = ''notes.TXT'', size_bytes = 10\<rparr>
     (initial_page\<lparr>selectedFile := Some example_file\<rparr>))) = ''Please upload a CSV file.'' \<and>
   selectedFile (state_of (handleFile \<lparr>name = ''notes.TXT'', size_bytes = 10\<rparr>
     (initial_page\<lparr>selectedFile := Some example_file\<rparr>))) = Some example_file \<and>
   52428800 < size_bytes \<lparr>name = ''big.csv'', size_bytes = 52428801\<rparr> \<and>
   errorMessage (state_of (handleFile_simple \<lparr>name = ''big.csv'', size_bytes = 52428801\<rparr>
     initial_page_simple)) = ''File size exceeds 50MB limit.'' \<and>
   selectedFile (state_of (handleFile_simple \<lparr>name = ''big.csv'', size_bytes = 52428801\<rparr>
     initial_page_simple)) = None"
proof -
  have a: "\<not> endsWith (toLowerCase (name \<lparr>name = ''notes.TXT'', size_bytes = 10\<rparr>)) ''.csv''"
    by (simp add: endsWith_def toLowerCase_def lowerChar_def)
  have b: "52428800 < size_bytes \<lparr>name = ''big.csv'', size_bytes = 52428801\<rparr>"
    by simp
  have c: "endsWith (toLowerCase (name \<lparr>name = ''big.csv'', size_bytes = 52428801\<rparr>)) ''.csv''"
    by (simp add: endsWith_def toLowerCase_def lowerChar_def)
  have i: "selectedFile initial_page_simple = None"
    by (simp add: initial_page_simple_def)
  show ?thesis
    using a b c i
      handleFile_rejects [of "\<lparr>name = ''notes.TXT'', size_bytes = 10\<rparr>"
        "initial_page\<lparr>selectedFile := Some example_file\<rparr>" initial_page_simple]
      handleFile_rejects [of "\<lparr>name = ''big.csv'', size_bytes = 52428801\<rparr>"
        "initial_page\<lparr>selectedFile := Some example_file\<rparr>" initial_page_simple]
    by (simp add: showError_fields showError_simple_fields)
qed

text \<open>
  C8. When \<open>outputFilename\<close> is \<open>null\<close> (or empty) or \<open>analyticsData\<close> is \<open>null\<close>,
  \<open>archiveReport\<close> returns after \<open>showError\<close> and sends no request.
\<close>

theorem archiveReport_requires_report:
  assumes "falsy (outputFilename s) \<or> analyticsData s = None"
  shows
    "archiveReport now response s = Normal (showError ''No report available to archive.'' s) \<and>
     errorMessage (state_of (archiveReport now response s)) = ''No report available to archive.'' \<and>
     visible_panels (state_of (archiveReport now response s)) =
       filter (\<lambda>p. panels s p \<noteq> None) [ErrorSection] \<and>
     requests (state_of (archiveReport now response s)) = requests s"
proof -
  have "archiveReport now response s = Normal (showError ''No report available to archive.'' s)"
    using assms by (auto simp: archiveReport_def falsy_def split: option.splits)
  then show ?thesis by (simp add: showError_fields visible_showError)
qed

theorem archiveReport_requires_report_witness:
  "(falsy (outputFilename initial_page) \<or> analyticsData initial_page = None) \<and>
   errorMessage (state_of (archiveReport ''2024-05-01T10:00:00.000Z''
     (Json \<lparr>create_success = True, create_error = None\<rparr>) initial_page)) =
     ''No report available to archive.'' \<and>
   visible_panels (state_of (archiveReport ''2024-05-01T10:00:00.000Z''
     (Json \<lparr>create_success = True, create_error = None\<rparr>) initial_page)) = [ErrorSection] \<and>
   requests (state_of (archiveReport ''2024-05-01T10:00:00.000Z''
     (Json \<lparr>create_success = True, create_error = None\<rparr>) initial_page)) = []"
proof -
  have a: "falsy (outputFilename initial_page) \<or> analyticsData initial_page = None"
    by (simp add: initial_page_def)
  have i: "requests initial_page = []" "\<And>p. panels initial_page p \<noteq> None"
    by (simp_all add: initial_page_def)
  show ?thesis
    using a i archiveReport_requires_report [OF a, of "''2024-05-01T10:00:00.000Z''"
        "Json \<lparr>create_success = True, create_error = None\<rparr>"]
    by (simp add: showError_fields visible_showError)
qed

text \<open>
  C9. \<open>loadArchive\<close> never throws. A response that is unsuccessful, or whose list is
  missing or empty, shows the placeholder and hides the list; a rejected fetch or a body
  that is not JSON adds a line to the console and leaves the archive view as it was.
\<close>

theorem loadArchive_never_throws:
  "\<not> threw (loadArchive response s) \<and>
   ((\<exists>result. response = Json result \<and>
       (\<not> list_success result \<or> archives result = None \<or> archives result = Some [])) \<longrightarrow>
      archive_empty (state_of (loadArchive response s)) = ''block'' \<and>
      archive_content (state_of (loadArchive response s)) = ''none'' \<and>
      archive_list (state_of (loadArchive response s)) = archive_list s) \<and>
   (response = Rejected \<or> response = NotJson \<longrightarrow>
      state_of (loadArchive response s) =
        s\<lparr>requests := requests s @ [ArchiveList],
          console := console s @ [''Error loading archive:'']\<rparr> \<and>
      archive_empty (state_of (loadArchive response s)) = archive_empty s \<and>
      archive_content (state_of (loadArchive response s)) = archive_content s \<and>
      archive_list (state_of (loadArchive response s)) = archive_list s)"
  by (cases response) (auto simp: loadArchive_def Let_def split: option.splits)

theorem loadArchive_never_throws_witness:
  "\<not> threw (loadArchive NotJson initial_page) \<and>
   archive_list (state_of (loadArchive NotJson initial_page)) = [] \<and>
   console (state_of (loadArchive NotJson initial_page)) = [''Error loading archive:''] \<and>
   archive_empty (state_of (loadArchive (Json \<lparr>list_success = True, archives = Some []\<rparr>)
     (initial_page\<lparr>archive_empty := ''none'', archive_content := ''block''\<rparr>))) = ''block'' \<and>
   archive_content (state_of (loadArchive (Json \<lparr>list_success = True, archives = Some []\<rparr>)
     (initial_page\<lparr>archive_empty := ''none'', archive_content := ''block''\<rparr>))) = ''none''"
  using loadArchive_never_throws [of NotJson initial_page]
    loadArchive_never_throws [of "Json \<lparr>list_success = True, archives = Some []\<rparr>"
      "initial_page\<lparr>archive_empty := ''none'', archive_content := ''block''\<rparr>"]
  by (simp add: initial_page_def)

subsection \<open>What \<open>resetForm\<close> clears\<close>

lemma resetForm_fields:
  "selectedFile (resetForm s) = None"
  "outputFilename (resetForm s) = None"
  "asinFilename (resetForm s) = None"
  "lastProcessedData (resetForm s) = lastProcessedData s"
  "analyticsData (resetForm s) = analyticsData s"
  by (simp_all add: resetForm_def showSection_frame)

lemma processFile_stores:
  assumes "selectedFile s = Some file" and "success result"
  shows "lastProcessedData (state_of (processFile now (Json result) s)) = Some result"
    and "analyticsData (state_of (processFile now (Json result) s)) =
          Some (snapshot result file now)"
proof -
  from processFile_outcome [OF assms(1), of now "Json result"] obtain s' sec where
    "processFile now (Json result) s = Normal (showSection sec s')"
    "lastProcessedData s' = Some result"
    "analyticsData s' = Some (snapshot result file now)"
    using assms(2) by auto
  then show "lastProcessedData (state_of (processFile now (Json result) s)) = Some result"
    and "analyticsData (state_of (processFile now (Json result) s)) =
          Some (snapshot result file now)"
    by (simp_all add: showSection_frame)
qed

text \<open>
  C2 as stated fails: after a successful upload and \<open>resetForm\<close>, \<open>analyticsData\<close> and
  \<open>lastProcessedData\<close> are not \<open>null\<close>.
\<close>

theorem resetForm_clears_counterexample:
  "analyticsData (resetForm (state_of (processFile ''2024-05-01T10:00:00.000Z''
     (Json example_result) (initial_page\<lparr>selectedFile := Some example_file\<rparr>)))) =
     Some (snapshot example_result example_file ''2024-05-01T10:00:00.000Z'') \<and>
   lastProcessedData (resetForm (state_of (processFile ''2024-05-01T10:00:00.000Z''
     (Json example_result) (initial_page\<lparr>selectedFile := Some example_file\<rparr>)))) =
     Some example_result"
proof -
  have f: "selectedFile (initial_page\<lparr>selectedFile := Some example_file\<rparr>) = Some example_file"
    by simp
  have ok: "success example_result"
    by (simp add: example_result_def)
  show ?thesis
    by (simp add: resetForm_fields processFile_stores [OF f ok])
qed

text \<open>
  C2, as amended. \<open>resetForm\<close> sets \<open>selectedFile\<close>, \<open>outputFilename\<close> and
  \<open>asinFilename\<close> to \<open>null\<close>; it does not write \<open>lastProcessedData\<close> and \<open>analyticsData\<close>,
  which after a successful upload and a reset still hold that upload's response and
  snapshot.
\<close>

theorem resetForm_clears_selection:
  "selectedFile (resetForm s) = None \<and>
   outputFilename (resetForm s) = None \<and>
   asinFilename (resetForm s) = None \<and>
   lastProcessedData (resetForm s) = lastProcessedData s \<and>
   analyticsData (resetForm s) = analyticsData s \<and>
   (selectedFile s = Some file \<and> success result \<longrightarrow>
      lastProcessedData (resetForm (state_of (processFile now (Json result) s))) = Some result \<and>
      analyticsData (resetForm (state_of (processFile now (Json result) s))) =
        Some (snapshot result file now))"
  by (simp add: resetForm_fields processFile_stores)

theorem resetForm_clears_selection_witness:
  "selectedFile (initial_page\<lparr>selectedFile := Some example_file\<rparr>) = Some example_file \<and>
   success example_result \<and>
   selectedFile (resetForm (state_of (processFile ''2024-05-01T10:00:00.000Z''
     (Json example_result) (initial_page\<lparr>selectedFile := Some example_file\<rparr>)))) = None \<and>
   outputFilename (resetForm (state_of (processFile ''2024-05-01T10:00:00.000Z''
     (Json example_result) (initial_page\<lparr>selectedFile := Some example_file\<rparr>)))) = None \<and>
   lastProcessedData (resetForm (state_of (processFile ''2024-05-01T10:00:00.000Z''
     (Json example_result) (initial_page\<lparr>selectedFile := Some example_file\<rparr>)))) =
     Some example_result"
proof -
  have ok: "success example_result"
    by (simp add: example_result_def)
  show ?thesis
    using ok resetForm_clears_selection [of "state_of (processFile ''2024-05-01T10:00:00.000Z''
        (Json example_result) (initial_page\<lparr>selectedFile := Some example_file\<rparr>))"]
      resetForm_clears_selection [of "initial_page\<lparr>selectedFile := Some example_file\<rparr>"
        example_file example_result "''2024-05-01T10:00:00.000Z''"]
    by simp
qed

subsection \<open>The analytics view\<close>





subsection \<open>Fixed-point rendering\<close>













subsection \<open>Distribution shares and ACOS\<close>








subsection \<open>Reading back what \<open>toFixed\<close> wrote\<close>




















subsection \<open>File sizes\<close>







end
